theory Spec2Isabelle
  imports Main "HOL-Library.AList" "HOL-Library.Char_ord" "HOL-Library.List_Lexorder"
    "HOL-Library.Product_Lexorder"
begin

section \<open>Documentation generation of EasyBuild: easybuild/tools/docs.py\<close>

text \<open>
  The development embeds the parts of \<^verbatim>\<open>easybuild/tools/docs.py\<close> that dispatch a
  report to a format-specific function, build the catalog of easyconfig parameters,
  render the version tables of the software list, discover easyblock classes and document
  the customised steps of an easyblock.

  Conventions: a Python exception is a value of \<open>error\<close> on the left of a sum; a
  \<^verbatim>\<open>dict\<close> is an association list with distinct keys in insertion order
  (\<open>AList.update\<close> overwrites in place or appends, as assignment to a key does);
  \<^verbatim>\<open>sorted\<close> is \<open>sort\<close>; strings compare as lists of characters by character code.
\<close>

subsection \<open>Exceptions\<close>

datatype error =
    KeyError string
  | NotImplementedError string
  | RuntimeError string string
  | TypeError
  | ValueError

subsection \<open>Dispatch by composed function name\<close>

text \<open>
  \<^verbatim>\<open>generate_doc(name, params)\<close> looks \<open>name\<close> up in \<^verbatim>\<open>globals()\<close> and calls what it
  finds with the items of \<open>params\<close> as positional arguments. The module namespace is a
  map from names to callables; a callable takes the list of its positional arguments. A
  name that is not bound raises \<^verbatim>\<open>KeyError(name)\<close>.
\<close>

type_synonym 'a callable = "'a list \<Rightarrow> error + string"

definition generate_doc :: "(string \<rightharpoonup> 'a callable) \<Rightarrow> string \<Rightarrow> 'a list \<Rightarrow> error + string" where
  "generate_doc globals name params =
     (case globals name of
        None \<Rightarrow> Inl (KeyError name)
      | Some func \<Rightarrow> func params)"

text \<open>
  The functions of the module that only raise \<^verbatim>\<open>NotImplementedError\<close>. A call with a
  number of arguments that the signature does not accept raises \<^verbatim>\<open>TypeError\<close> before the
  body runs.
\<close>

definition avail_cfgfile_constants_json :: "'a callable" where
  "avail_cfgfile_constants_json args =
     (if length args = 1
      then Inl (NotImplementedError
                  ''JSON output format not supported for avail_cfgfile_constants_json'')
      else Inl TypeError)"

definition avail_easyconfig_constants_json :: "'a callable" where
  "avail_easyconfig_constants_json args =
     (if length args = 0
      then Inl (NotImplementedError
                  ''JSON output format not supported for avail_easyconfig_constants_json'')
      else Inl TypeError)"

definition avail_easyconfig_licenses_json :: "'a callable" where
  "avail_easyconfig_licenses_json args =
     (if length args = 0
      then Inl (NotImplementedError
                  ''JSON output format not supported for avail_easyconfig_licenses_json'')
      else Inl TypeError)"

definition avail_easyconfig_params_json :: "'a callable" where
  "avail_easyconfig_params_json args =
     Inl (NotImplementedError
            ''JSON output format not supported for avail_easyconfig_params_json'')"

definition avail_easyconfig_templates_json :: "'a callable" where
  "avail_easyconfig_templates_json args =
     (if length args = 0
      then Inl (NotImplementedError
                  ''JSON output format not supported for avail_easyconfig_templates'')
      else Inl TypeError)"

definition list_toolchains_json :: "'a callable" where
  "list_toolchains_json args =
     (if length args = 1
      then Inl (NotImplementedError ''JSON output not implemented yet for --list-toolchains'')
      else Inl TypeError)"

definition avail_toolchain_opts_json :: "'a callable" where
  "avail_toolchain_opts_json args =
     (if length args = 2
      then Inl (NotImplementedError ''JSON output not implemented yet for --avail-toolchain-opts'')
      else Inl TypeError)"

definition gen_easyblocks_overview_json :: "'a callable" where
  "gen_easyblocks_overview_json args =
     (if 2 \<le> length args \<and> length args \<le> 4
      then Inl (NotImplementedError
                  ''JSON output not implemented yet for gen_easyblocks_overview'')
      else Inl TypeError)"

subsection \<open>Data of the parameter catalog\<close>

text \<open>
  An easyconfig parameter of \<^verbatim>\<open>DEFAULT_CONFIG\<close> or of \<^verbatim>\<open>extra_options()\<close> is a name bound
  to \<^verbatim>\<open>[default, description, category]\<close>; a category is a pair of a rank and a label.
  The type \<open>'d\<close> of default values is left open. An easyblock class is known by its
  \<^verbatim>\<open>__name__\<close> and the dictionary that its \<^verbatim>\<open>extra_options()\<close> returns.
\<close>

type_synonym category = "int \<times> string"
type_synonym 'd param = "'d \<times> string \<times> category"
type_synonym 'd schema = "(string \<times> 'd param) list"
type_synonym 'd params_group = "(string \<times> (string \<times> 'd)) list"
type_synonym 'd grouped = "(string \<times> 'd params_group) list"

record 'd easyblock_class =
  cls_name :: string
  extra_options :: "'d schema"

text \<open>
  The two kinds of value that meet in the test of line 445, \<^verbatim>\<open>category[1].upper() in
  [HIDDEN]\<close>: a string and a category tuple. Python's \<^verbatim>\<open>in\<close> on a list compares with
  \<^verbatim>\<open>==\<close>, and a string is never equal to a tuple.
\<close>

datatype pyvalue = PyStr string | PyTuple category

text \<open>
  The arguments that the entry points hand to the function they dispatch to: the title,
  the grouped parameters and the alternative names of \<^verbatim>\<open>avail_easyconfig_params\<close>, and
  \<open>Obj\<close> for any other object, which no function embedded here looks into.
\<close>

datatype 'd arg =
    Str string
  | Grouped "'d grouped"
  | Alternatives "(string \<times> string) list"
  | Obj

subsection \<open>Strings\<close>

text \<open>
  \<^verbatim>\<open>str.upper()\<close> on the ASCII letters, which the labels of the categories are made of;
  other characters are left as they are.
\<close>

definition upper_char :: "char \<Rightarrow> char" where
  "upper_char c =
     (if CHR ''a'' \<le> c \<and> c \<le> CHR ''z'' then char_of (of_char c - (32::nat)) else c)"

definition upper :: "string \<Rightarrow> string" where
  "upper s = map upper_char s"

fun join :: "string \<Rightarrow> string list \<Rightarrow> string" where
  "join sep [] = ''''"
| "join sep [x] = x"
| "join sep (x # y # ys) = x @ sep @ join sep (y # ys)"

definition ljust :: "nat \<Rightarrow> string \<Rightarrow> string" where
  "ljust w s = s @ replicate (w - length s) CHR '' ''"

subsection \<open>Dictionaries\<close>

text \<open>\<^verbatim>\<open>d.update(e)\<close>: every item of \<open>e\<close>, in its order, is assigned in \<open>d\<close>.\<close>

definition dict_update :: "('k \<times> 'v) list \<Rightarrow> ('k \<times> 'v) list \<Rightarrow> ('k \<times> 'v) list" where
  "dict_update d e = fold (\<lambda>(k, v) acc. AList.update k v acc) e d"

text \<open>\<^verbatim>\<open>{v: k for k, v in d.items()}\<close>.\<close>

definition reverse_mapping :: "('k \<times> 'v) list \<Rightarrow> ('v \<times> 'k) list" where
  "reverse_mapping d = fold (\<lambda>(k, v) acc. AList.update v k acc) d []"

definition dict_keys :: "('k \<times> 'v) list \<Rightarrow> 'k list" where
  "dict_keys d = map fst d"

definition dict_contains :: "('k \<times> 'v) list \<Rightarrow> 'k \<Rightarrow> bool" where
  "dict_contains d k = (map_of d k \<noteq> None)"

subsection \<open>The txt function of the parameter catalog\<close>

text \<open>
  \<^verbatim>\<open>avail_easyconfig_params_txt(title, grouped_params, alternative_params)\<close>. The line of a
  parameter is \<^verbatim>\<open>'{0:<{nw}}   {1:} [default: {2:}]'\<close> filled with the name, the description
  and \<^verbatim>\<open>str(quote_str(dflt))\<close>; \<open>quote_str\<close> stands for that last composition, whose
  definition is in \<^verbatim>\<open>easybuild.tools.utilities\<close>. \<^verbatim>\<open>max\<close> of no keys raises
  \<^verbatim>\<open>ValueError\<close>.
\<close>

definition params_txt_line ::
  "('d \<Rightarrow> string) \<Rightarrow> (string \<times> string) list \<Rightarrow> nat \<Rightarrow> string \<times> (string \<times> 'd) \<Rightarrow> string" where
  "params_txt_line quote_str alternative_params nw item =
     (case item of (name, (descr, dflt)) \<Rightarrow>
        let line = ljust nw name @ ''  '' @ '' '' @ descr @ '' '' @
                   ''[default: '' @ quote_str dflt @ '']''
        in (case map_of alternative_params name of
              None \<Rightarrow> line
            | Some alternative \<Rightarrow>
                if alternative \<noteq> [] then line @ '' {alternative: '' @ alternative @ ''}''
                else line))"

fun params_txt_groups ::
  "('d \<Rightarrow> string) \<Rightarrow> (string \<times> string) list \<Rightarrow> 'd grouped \<Rightarrow> string list \<Rightarrow>
   error + string list" where
  "params_txt_groups quote_str alternative_params [] doc = Inr doc"
| "params_txt_groups quote_str alternative_params ((grpname, grp) # rest) doc =
     (let doc1 = doc @ [upper grpname];
          doc2 = doc1 @ [replicate (length (last doc1)) CHR ''-'']
      in if dict_keys grp = [] then Inl ValueError
         else
           let nw = Max (set (map length (dict_keys grp)));
               doc3 = doc2 @ map (params_txt_line quote_str alternative_params nw)
                                 (sort_key fst grp)
           in params_txt_groups quote_str alternative_params rest (doc3 @ ['''']))"

definition avail_easyconfig_params_txt :: "('d \<Rightarrow> string) \<Rightarrow> 'd arg callable" where
  "avail_easyconfig_params_txt quote_str args =
     (case args of
        [Str title, Grouped grouped_params, Alternatives alternative_params] \<Rightarrow>
          (case params_txt_groups quote_str alternative_params grouped_params
                  [title @ '':'', ''''] of
             Inl e \<Rightarrow> Inl e
           | Inr doc \<Rightarrow> Inr (join [CHR 0x0A] doc))
      | _ \<Rightarrow> Inl TypeError)"

subsection \<open>The namespace of the module\<close>

text \<open>
  What the functions of this module read from other modules of the framework, and the
  bindings of this module that are not embedded here:
  \<^item> \<open>DEFAULT_CONFIG\<close>: the address of the dictionary of the base parameters;
  \<^item> \<open>HIDDEN\<close>: the constant of that name of \<^verbatim>\<open>easybuild.framework.easyconfig.default\<close>,
    which is one of the category tuples, \<^verbatim>\<open>(-1, 'hidden')\<close> in the framework;
  \<^item> \<open>sorted_categories\<close>, \<open>ALTERNATIVE_EASYCONFIG_PARAMETERS\<close>: the constants of those
    names;
  \<^item> \<open>get_easyblock_class\<close>: the lookup of an easyblock class, called with
    \<^verbatim>\<open>error_on_missing_easyblock=False\<close>, so that an unknown easyblock gives \<^verbatim>\<open>None\<close>;
  \<^item> \<open>quote_str\<close>: \<^verbatim>\<open>str(quote_str(x))\<close>;
  \<^item> \<open>others\<close>: every other binding of the module namespace (the txt, md and rst
    functions that are not embedded here).
\<close>

record 'd docs_env =
  DEFAULT_CONFIG :: nat
  HIDDEN :: category
  sorted_categories :: "category list"
  ALTERNATIVE_EASYCONFIG_PARAMETERS :: "(string \<times> string) list"
  get_easyblock_class :: "string option \<Rightarrow> 'd easyblock_class option"
  quote_str :: "'d \<Rightarrow> string"
  others :: "string \<rightharpoonup> 'd arg callable"

definition json_stubs :: "(string \<times> 'a callable) list" where
  "json_stubs =
     [(''avail_cfgfile_constants_json'', avail_cfgfile_constants_json),
      (''avail_easyconfig_constants_json'', avail_easyconfig_constants_json),
      (''avail_easyconfig_licenses_json'', avail_easyconfig_licenses_json),
      (''avail_easyconfig_params_json'', avail_easyconfig_params_json),
      (''avail_easyconfig_templates_json'', avail_easyconfig_templates_json),
      (''list_toolchains_json'', list_toolchains_json),
      (''avail_toolchain_opts_json'', avail_toolchain_opts_json),
      (''gen_easyblocks_overview_json'', gen_easyblocks_overview_json)]"

text \<open>
  The bindings embedded here take precedence over \<open>others\<close>: a module binds a name once,
  so \<open>others\<close> has nothing to say about these names.
\<close>

definition docs_globals :: "'d docs_env \<Rightarrow> (string \<rightharpoonup> 'd arg callable)" where
  "docs_globals env =
     others env ++
     map_of (json_stubs @
             [(''avail_easyconfig_params_txt'', avail_easyconfig_params_txt (quote_str env))])"

text \<open>
  The entry points compose the name from the report and the format, as in
  \<^verbatim>\<open>generate_doc('avail_easyconfig_constants_%s' % output_format, [])\<close>.
\<close>

definition renderer_name :: "string \<Rightarrow> string \<Rightarrow> string" where
  "renderer_name report output_format = report @ ''_'' @ output_format"

definition avail_cfgfile_constants :: "'d docs_env \<Rightarrow> 'd arg \<Rightarrow> string \<Rightarrow> error + string" where
  "avail_cfgfile_constants env go_cfg_constants output_format =
     generate_doc (docs_globals env)
       (renderer_name ''avail_cfgfile_constants'' output_format) [go_cfg_constants]"

definition avail_easyconfig_constants :: "'d docs_env \<Rightarrow> string \<Rightarrow> error + string" where
  "avail_easyconfig_constants env output_format =
     generate_doc (docs_globals env)
       (renderer_name ''avail_easyconfig_constants'' output_format) []"

definition avail_easyconfig_licenses :: "'d docs_env \<Rightarrow> string \<Rightarrow> error + string" where
  "avail_easyconfig_licenses env output_format =
     generate_doc (docs_globals env)
       (renderer_name ''avail_easyconfig_licenses'' output_format) []"

definition avail_easyconfig_templates :: "'d docs_env \<Rightarrow> string \<Rightarrow> error + string" where
  "avail_easyconfig_templates env output_format =
     generate_doc (docs_globals env)
       (renderer_name ''avail_easyconfig_templates'' output_format) []"

subsection \<open>The parameter catalog\<close>

text \<open>
  The store holds the dictionaries that the function can reach, by address.
  \<^verbatim>\<open>copy.deepcopy\<close> allocates a new dictionary with the items of the old one;
  \<^verbatim>\<open>params.update(extra_params)\<close> assigns in the dictionary at the address of \<open>params\<close>.
  The lists \<^verbatim>\<open>[default, description, category]\<close> are values here: the function never
  assigns to one.
\<close>

type_synonym 'd store = "'d schema list"

definition deepcopy :: "'d store \<Rightarrow> nat \<Rightarrow> 'd store \<times> nat" where
  "deepcopy h a = (h @ [h ! a], length h)"

definition store_update :: "'d store \<Rightarrow> nat \<Rightarrow> 'd schema \<Rightarrow> 'd store" where
  "store_update h a e = h[a := dict_update (h ! a) e]"

text \<open>
  Lines 427 to 430: the extra parameters of the easyblock, none when the class is not
  found.
\<close>

definition extra_params_of :: "'d docs_env \<Rightarrow> string option \<Rightarrow> 'd schema" where
  "extra_params_of env easyblock =
     (case get_easyblock_class env easyblock of
        None \<Rightarrow> []
      | Some app \<Rightarrow> extra_options app)"

text \<open>
  Lines 452 to 454: \<^verbatim>\<open>if name in extra_params: name = '%s*' % name\<close>.
\<close>

definition marked_name :: "'d schema \<Rightarrow> string \<Rightarrow> string" where
  "marked_name extra_params name =
     (if dict_contains extra_params name then name @ ''*'' else name)"

text \<open>
  The inner loop over \<^verbatim>\<open>sorted(params.items())\<close> for one category, filling the
  dictionary of the group.
\<close>

fun add_category_params ::
  "'d schema \<Rightarrow> category \<Rightarrow> 'd schema \<Rightarrow> 'd params_group \<Rightarrow> 'd params_group" where
  "add_category_params extra_params category [] grp = grp"
| "add_category_params extra_params category ((name, (dflt, descr, cat)) # rest) grp =
     (if cat = category
      then add_category_params extra_params category rest
             (AList.update (marked_name extra_params name) (descr, dflt) grp)
      else add_category_params extra_params category rest grp)"

text \<open>
  The loop over \<^verbatim>\<open>sorted_categories()\<close>. The test of line 445 compares the upper-cased
  label, a string, with the items of \<^verbatim>\<open>[HIDDEN]\<close>, a list of one category tuple.
  \<^verbatim>\<open>grouped_params[grpname] = {}\<close> binds the label to a new dictionary, which the inner
  loop fills in place and which is deleted again when it stayed empty.
\<close>

fun group_params ::
  "category \<Rightarrow> 'd schema \<Rightarrow> 'd schema \<Rightarrow> category list \<Rightarrow> 'd grouped \<Rightarrow> 'd grouped" where
  "group_params hidden params extra_params [] grouped_params = grouped_params"
| "group_params hidden params extra_params (category # rest) grouped_params =
     (if PyStr (upper (snd category)) \<in> set [PyTuple hidden]
      then group_params hidden params extra_params rest grouped_params
      else
        let grpname = snd category;
            grp = add_category_params extra_params category (sort_key fst params) [];
            grouped1 = AList.update grpname grp (AList.update grpname [] grouped_params)
        in group_params hidden params extra_params rest
             (if grp = [] then AList.delete grpname grouped1 else grouped1))"

text \<open>
  Names for the statements below: the dictionary that the inner loop builds for a
  category, one turn of the outer loop for a category that is not skipped, and the
  dictionary \<^verbatim>\<open>params\<close> after line 431.
\<close>

definition group_of :: "'d schema \<Rightarrow> 'd schema \<Rightarrow> category \<Rightarrow> 'd params_group" where
  "group_of params extra_params category =
     add_category_params extra_params category (sort_key fst params) []"

definition group_step :: "'d schema \<Rightarrow> 'd schema \<Rightarrow> category \<Rightarrow> 'd grouped \<Rightarrow> 'd grouped" where
  "group_step params extra_params category grouped_params =
     (let grouped1 = AList.update (snd category) (group_of params extra_params category)
                       (AList.update (snd category) [] grouped_params)
      in if group_of params extra_params category = []
         then AList.delete (snd category) grouped1 else grouped1)"

definition merged_params :: "'d docs_env \<Rightarrow> 'd store \<Rightarrow> string option \<Rightarrow> 'd schema" where
  "merged_params env h easyblock =
     dict_update (h ! DEFAULT_CONFIG env) (extra_params_of env easyblock)"

text \<open>
  Lines 424 to 458 of \<^verbatim>\<open>avail_easyconfig_params\<close>: the store after the merge, the title,
  the grouped parameters and the reverse mapping of the alternative names.
\<close>

definition easyconfig_params_catalog ::
  "'d docs_env \<Rightarrow> 'd store \<Rightarrow> string option \<Rightarrow>
   'd store \<times> string \<times> 'd grouped \<times> (string \<times> string) list" where
  "easyconfig_params_catalog env h easyblock =
     (let (h1, params) = deepcopy h (DEFAULT_CONFIG env);
          app = get_easyblock_class env easyblock;
          extra_params = extra_params_of env easyblock;
          h2 = store_update h1 params extra_params;
          alternative_params = reverse_mapping (ALTERNATIVE_EASYCONFIG_PARAMETERS env);
          title = ''Available easyconfig parameters'' @
                  (if extra_params \<noteq> []
                   then (case app of
                           Some cls \<Rightarrow>
                             '' ('' @ ''* indicates specific to the '' @ cls_name cls @
                             '' easyblock)''
                         | None \<Rightarrow> '''')
                   else '''');
          grouped_params =
            group_params (HIDDEN env) (h2 ! params) extra_params (sorted_categories env) []
      in (h2, title, grouped_params, alternative_params))"

text \<open>Line 461: the dispatch on the format.\<close>

definition avail_easyconfig_params ::
  "'d docs_env \<Rightarrow> 'd store \<Rightarrow> string option \<Rightarrow> string \<Rightarrow> 'd store \<times> (error + string)" where
  "avail_easyconfig_params env h easyblock output_format =
     (case easyconfig_params_catalog env h easyblock of
        (h', title, grouped_params, alternative_params) \<Rightarrow>
          (h', generate_doc (docs_globals env)
                 (renderer_name ''avail_easyconfig_params'' output_format)
                 [Str title, Grouped grouped_params, Alternatives alternative_params]))"

subsection \<open>The version tables of the software list\<close>

text \<open>
  The entries of \<^verbatim>\<open>software[key]\<close>, as \<^verbatim>\<open>list_software\<close> builds them: the dictionary
  \<^verbatim>\<open>info\<close> with the keys toolchain, description, homepage, version and versionsuffix.
\<close>

record software_info =
  toolchain :: string
  description :: string
  homepage :: string
  version :: string
  versionsuffix :: string

text \<open>
  Modelled from the spec: \<^verbatim>\<open>nub\<close> is imported from \<^verbatim>\<open>easybuild.tools.utilities\<close>, which is
  not among the sources. The spec calls its result deduplicated and the comment at its
  call says that it uses a set of the items seen: the first occurrence of every item is
  kept, in order.
\<close>

fun nub_seen :: "'a list \<Rightarrow> 'a list \<Rightarrow> 'a list" where
  "nub_seen seen [] = []"
| "nub_seen seen (x # xs) =
     (if x \<in> set seen then nub_seen seen xs else x # nub_seen (x # seen) xs)"

definition nub :: "'a list \<Rightarrow> 'a list" where
  "nub xs = nub_seen [] xs"

definition list_insert :: "nat \<Rightarrow> 'a \<Rightarrow> 'a list \<Rightarrow> 'a list" where
  "list_insert i x xs = take i xs @ [x] @ drop i xs"

definition list_append_at :: "nat \<Rightarrow> 'a \<Rightarrow> 'a list list \<Rightarrow> 'a list list" where
  "list_append_at i x cols = cols[i := cols ! i @ [x]]"

definition backquoted :: "string \<Rightarrow> string" where
  "backquoted s = ''``'' @ s @ ''``''"

text \<open>
  \<^verbatim>\<open>LooseVersion\<close> is imported from \<^verbatim>\<open>easybuild.tools\<close>, which is not among the sources:
  it is the parameter \<open>lv\<close>, a function from version strings into a linear order.
  \<^verbatim>\<open>sorted((LooseVersion(v), vs, v) for v, vs in pairs)\<close> sorts the triples
  lexicographically.
\<close>

definition version_pairs :: "software_info list \<Rightarrow> (string \<times> string) list" where
  "version_pairs entries = nub (map (\<lambda>x. (version x, versionsuffix x)) entries)"

definition sorted_version_pairs ::
  "(string \<Rightarrow> 'v::linorder) \<Rightarrow> (string \<times> string) list \<Rightarrow> ('v \<times> string \<times> string) list" where
  "sorted_version_pairs lv pairs = sort (map (\<lambda>(v, vs). (lv v, vs, v)) pairs)"

definition toolchains_of :: "software_info list \<Rightarrow> string \<Rightarrow> string \<Rightarrow> string list" where
  "toolchains_of entries ver vsuff =
     map toolchain (filter (\<lambda>x. version x = ver \<and> versionsuffix x = vsuff) entries)"

text \<open>
  The loop \<^verbatim>\<open>for _, vsuff, ver in sorted_pairs\<close> of \<^verbatim>\<open>list_software_md\<close> (lines 900 to
  908) and of \<^verbatim>\<open>list_software_rst\<close> (lines 1004 to 1012), which appends one cell to
  every column of \<^verbatim>\<open>table_values\<close>.
\<close>

fun add_version_rows ::
  "bool \<Rightarrow> software_info list \<Rightarrow> ('v \<times> string \<times> string) list \<Rightarrow> string list list \<Rightarrow>
   string list list" where
  "add_version_rows with_vsuff entries [] table_values = table_values"
| "add_version_rows with_vsuff entries ((_, vsuff, ver) # rest) table_values =
     (let tv1 = list_append_at 0 (backquoted ver) table_values;
          tv2 = (if with_vsuff
                 then (if vsuff \<noteq> '''' then list_append_at 1 (backquoted vsuff) tv1
                       else list_append_at 1 '''' tv1)
                 else tv1);
          tcs = toolchains_of entries ver vsuff;
          tv3 = list_append_at (length tv2 - 1)
                  (join '', '' (map backquoted (sort (nub tcs)))) tv2
      in add_version_rows with_vsuff entries rest tv3)"

text \<open>Names for the cells that one turn of that loop appends.\<close>

definition version_cell :: "'v \<times> string \<times> string \<Rightarrow> string" where
  "version_cell triple = (case triple of (_, vsuff, ver) \<Rightarrow> backquoted ver)"

definition versionsuffix_cell :: "'v \<times> string \<times> string \<Rightarrow> string" where
  "versionsuffix_cell triple =
     (case triple of (_, vsuff, ver) \<Rightarrow> if vsuff \<noteq> '''' then backquoted vsuff else '''')"

definition toolchain_cell :: "software_info list \<Rightarrow> 'v \<times> string \<times> string \<Rightarrow> string" where
  "toolchain_cell entries triple =
     (case triple of (_, vsuff, ver) \<Rightarrow>
        join '', '' (map backquoted (sort (nub (toolchains_of entries ver vsuff)))))"

text \<open>
  Lines 882 to 908 of \<^verbatim>\<open>list_software_md\<close>: the titles and the columns that go to
  \<^verbatim>\<open>md_title_and_table\<close>.
\<close>

definition list_software_md_table ::
  "(string \<Rightarrow> 'v::linorder) \<Rightarrow> software_info list \<Rightarrow> string list \<times> string list list" where
  "list_software_md_table lv entries =
     (let table_titles = [''version'', ''toolchain''];
          table_values = [Nil, Nil];
          pairs = version_pairs entries;
          with_vsuff = list_ex (\<lambda>(_, vs). vs \<noteq> '''') pairs;
          table_titles1 = (if with_vsuff then list_insert 1 ''versionsuffix'' table_titles
                           else table_titles);
          table_values1 = (if with_vsuff then list_insert 1 Nil table_values
                           else table_values);
          sorted_pairs = sorted_version_pairs lv pairs
      in (table_titles1, add_version_rows with_vsuff entries sorted_pairs table_values1))"

text \<open>
  Lines 986 to 1012 of \<^verbatim>\<open>list_software_rst\<close> are the same statements; the result goes to
  \<^verbatim>\<open>rst_title_and_table\<close>.
\<close>

definition list_software_rst_table ::
  "(string \<Rightarrow> 'v::linorder) \<Rightarrow> software_info list \<Rightarrow> string list \<times> string list list" where
  "list_software_rst_table lv entries = list_software_md_table lv entries"

text \<open>
  Lines 1053 to 1069 of \<^verbatim>\<open>list_software_txt\<close>: the lines of the versions of one software
  name.
\<close>

definition list_software_txt_line ::
  "string \<Rightarrow> software_info list \<Rightarrow> 'v \<times> string \<times> string \<Rightarrow> string" where
  "list_software_txt_line key entries triple =
     (case triple of (_, vsuff, ver) \<Rightarrow>
        let tcs = toolchains_of entries ver vsuff;
            line = ''  * '' @ key @ '' v'' @ ver;
            line1 = (if vsuff \<noteq> '''' then line @ '' (versionsuffix: '' @ [CHR 0x27] @ vsuff @
                                            [CHR 0x27] @ '')''
                     else line)
        in line1 @ '': '' @ join '', '' (sort (nub tcs)))"

definition list_software_txt_versions ::
  "(string \<Rightarrow> 'v::linorder) \<Rightarrow> string \<Rightarrow> software_info list \<Rightarrow> string list" where
  "list_software_txt_versions lv key entries =
     map (list_software_txt_line key entries)
         (sorted_version_pairs lv (version_pairs entries))"

text \<open>
  Modelled from the spec: \<^verbatim>\<open>LooseVersion\<close> is not among the sources; the spec describes
  its order as a numeric-aware comparison of the segments between dots. A segment of
  digits only is a number, any other segment is compared as a string and comes after the
  numbers. This instance is used for the examples only.
\<close>

fun split_dots :: "string \<Rightarrow> string \<Rightarrow> string list" where
  "split_dots cur [] = [cur]"
| "split_dots cur (c # cs) =
     (if c = CHR ''.'' then cur # split_dots '''' cs else split_dots (cur @ [c]) cs)"

definition is_digit :: "char \<Rightarrow> bool" where
  "is_digit c = (CHR ''0'' \<le> c \<and> c \<le> CHR ''9'')"

definition digits_value :: "string \<Rightarrow> nat" where
  "digits_value s = foldl (\<lambda>n c. 10 * n + (of_char c - of_char CHR ''0'')) 0 s"

definition version_segment :: "string \<Rightarrow> nat \<times> nat \<times> string" where
  "version_segment s =
     (if s \<noteq> '''' \<and> list_all is_digit s then (0, digits_value s, '''') else (1, 0, s))"

definition LooseVersion :: "string \<Rightarrow> (nat \<times> nat \<times> string) list" where
  "LooseVersion v = map version_segment (split_dots '''' v)"

subsection \<open>Discovery of the easyblock classes\<close>

text \<open>
  A class as \<^verbatim>\<open>inspect\<close> shows it: its name, the module that defines it, the names of the
  classes of its method resolution order, and what the overview reads of its own
  \<^verbatim>\<open>__dict__\<close>, the docstring of every attribute. A module is its name and its members
  that are classes.
\<close>

datatype attribute = Attribute (attr_doc: "string option")

record py_class =
  class_name :: string
  class_module :: string
  class_mro :: "string list"
  class_dict :: "(string \<times> attribute) list"

record py_module =
  mod_name :: string
  mod_classes :: "py_class list"

definition startswith :: "string \<Rightarrow> string \<Rightarrow> bool" where
  "startswith s p = (take (length p) s = p)"

text \<open>
  Line 1340: \<^verbatim>\<open>eb_class.__module__.startswith(package_name) and EasyBlock in
  inspect.getmro(eb_class)\<close>.
\<close>

definition is_easyblock_in :: "string \<Rightarrow> py_class \<Rightarrow> bool" where
  "is_easyblock_in package_name eb_class =
     (startswith (class_module eb_class) package_name \<and>
      ''EasyBlock'' \<in> set (class_mro eb_class))"

text \<open>The loop over \<^verbatim>\<open>inspect.getmembers(mod, inspect.isclass)\<close>.\<close>

fun scan_members ::
  "string \<Rightarrow> py_class list \<Rightarrow> py_class set \<times> bool \<Rightarrow> py_class set \<times> bool" where
  "scan_members package_name [] st = st"
| "scan_members package_name (eb_class # rest) (easyblocks, easyblock_found) =
     (if is_easyblock_in package_name eb_class
      then scan_members package_name rest (insert eb_class easyblocks, True)
      else scan_members package_name rest (easyblocks, easyblock_found))"

text \<open>
  The loop over the modules; \<^verbatim>\<open>raise RuntimeError("No easyblocks found in module: %s",
  mod.__name__)\<close> carries the two arguments as they are.
\<close>

fun scan_modules :: "string \<Rightarrow> py_module list \<Rightarrow> py_class set \<Rightarrow> error + py_class set" where
  "scan_modules package_name [] easyblocks = Inr easyblocks"
| "scan_modules package_name (m # rest) easyblocks =
     (case scan_members package_name (mod_classes m) (easyblocks, False) of
        (easyblocks1, easyblock_found) \<Rightarrow>
          if \<not> easyblock_found
          then Inl (RuntimeError ''No easyblocks found in module: %s'' (mod_name m))
          else scan_modules package_name rest easyblocks1)"

text \<open>
  \<^verbatim>\<open>import_available_modules\<close> is imported from \<^verbatim>\<open>easybuild.tools.utilities\<close>; it is a
  parameter, the modules of a package.
\<close>

definition get_easyblock_classes ::
  "(string \<Rightarrow> py_module list) \<Rightarrow> string \<Rightarrow> error + py_class set" where
  "get_easyblock_classes import_available_modules package_name =
     scan_modules package_name (import_available_modules package_name) {}"

text \<open>
  The overview functions call \<^verbatim>\<open>get_easyblock_classes\<close> first; \<open>sections\<close> stands for
  the heading and the sections that they compose from the classes found.
\<close>

definition gen_easyblocks_overview_md ::
  "(string \<Rightarrow> py_module list) \<Rightarrow> (py_class set \<Rightarrow> string list) \<Rightarrow> string \<Rightarrow>
   error + string list" where
  "gen_easyblocks_overview_md import_available_modules sections package_name =
     (case get_easyblock_classes import_available_modules package_name of
        Inl e \<Rightarrow> Inl e
      | Inr eb_classes \<Rightarrow> Inr (sections eb_classes))"

definition gen_easyblocks_overview_rst ::
  "(string \<Rightarrow> py_module list) \<Rightarrow> (py_class set \<Rightarrow> string list) \<Rightarrow> string \<Rightarrow>
   error + string list" where
  "gen_easyblocks_overview_rst import_available_modules sections package_name =
     (case get_easyblock_classes import_available_modules package_name of
        Inl e \<Rightarrow> Inl e
      | Inr eb_classes \<Rightarrow> Inr (sections eb_classes))"

subsection \<open>The customised steps of an easyblock\<close>

text \<open>
  \<^verbatim>\<open>str.strip()\<close> removes the characters for which \<^verbatim>\<open>str.isspace()\<close> holds; these are
  the ASCII ones among them.
\<close>

definition is_space :: "char \<Rightarrow> bool" where
  "is_space c =
     (c \<in> set [CHR '' '', CHR 0x09, CHR 0x0A, CHR 0x0B, CHR 0x0C, CHR 0x0D,
               CHR 0x1C, CHR 0x1D, CHR 0x1E, CHR 0x1F])"

definition strip :: "string \<Rightarrow> string" where
  "strip s = rev (dropWhile is_space (rev (dropWhile is_space s)))"

text \<open>
  The loop \<^verbatim>\<open>for func in doc_functions\<close> of \<^verbatim>\<open>gen_easyblock_doc_section_md\<close> (lines 1479
  to 1488). The variable \<open>f\<close> is \<^verbatim>\<open>None\<close> before the loop and is assigned only when the
  class defines \<open>func\<close> itself; \<open>none_doc\<close> is \<^verbatim>\<open>None.__doc__\<close>, which depends on the
  version of the interpreter. \<^verbatim>\<open>inh\<close> is the empty string throughout.
\<close>

definition doc_of :: "string option \<Rightarrow> attribute option \<Rightarrow> string option" where
  "doc_of none_doc f = (case f of None \<Rightarrow> none_doc | Some a \<Rightarrow> attr_doc a)"

fun custom_steps_md ::
  "string option \<Rightarrow> py_class \<Rightarrow> string list \<Rightarrow> attribute option \<Rightarrow> string list \<Rightarrow> string list" where
  "custom_steps_md none_doc eb_class [] f custom = custom"
| "custom_steps_md none_doc eb_class (func # rest) f custom =
     (let f1 = (case map_of (class_dict eb_class) func of Some a \<Rightarrow> Some a | None \<Rightarrow> f)
      in case doc_of none_doc f1 of
           None \<Rightarrow> custom_steps_md none_doc eb_class rest f1 custom
         | Some text \<Rightarrow>
             if text \<noteq> ''''
             then custom_steps_md none_doc eb_class rest f1
                    (custom @ [''* ``'' @ func @ ''`` - '' @ strip text @ '''', ''''])
             else custom_steps_md none_doc eb_class rest f1 custom)"

text \<open>The same loop in \<^verbatim>\<open>gen_easyblock_doc_section_rst\<close> (lines 1567 to 1575).\<close>

fun custom_steps_rst ::
  "string option \<Rightarrow> py_class \<Rightarrow> string list \<Rightarrow> attribute option \<Rightarrow> string list \<Rightarrow> string list" where
  "custom_steps_rst none_doc eb_class [] f custom = custom"
| "custom_steps_rst none_doc eb_class (func # rest) f custom =
     (let f1 = (case map_of (class_dict eb_class) func of Some a \<Rightarrow> Some a | None \<Rightarrow> f)
      in case doc_of none_doc f1 of
           None \<Rightarrow> custom_steps_rst none_doc eb_class rest f1 custom
         | Some text \<Rightarrow>
             if text \<noteq> ''''
             then custom_steps_rst none_doc eb_class rest f1
                    (custom @ [''* ``'' @ func @ ''`` - '' @ strip text @ ''''])
             else custom_steps_rst none_doc eb_class rest f1 custom)"

text \<open>The lines that the section of the class gets for its customised steps.\<close>

definition customised_steps_md :: "string option \<Rightarrow> py_class \<Rightarrow> string list \<Rightarrow> string list" where
  "customised_steps_md none_doc eb_class doc_functions =
     (let custom = custom_steps_md none_doc eb_class doc_functions None []
      in if custom \<noteq> []
         then [''### Customised steps in ``'' @ class_name eb_class @ ''`` easyblock'', ''''] @
              custom @ ['''']
         else [])"

definition customised_steps_rst :: "string option \<Rightarrow> py_class \<Rightarrow> string list \<Rightarrow> string list" where
  "customised_steps_rst none_doc eb_class doc_functions =
     (let custom = custom_steps_rst none_doc eb_class doc_functions None [];
          title = ''Customised steps in ``'' @ class_name eb_class @ ''`` easyblock''
      in if custom \<noteq> []
         then [title, replicate (length title) CHR ''-''] @ custom @ ['''']
         else [])"

subsection \<open>Example inputs\<close>

text \<open>
  A small registry: three base parameters, two categories without parameters, and one
  easyblock with one extra parameter.
\<close>

definition example_categories :: "category list" where
  "example_categories =
     [(-1, ''hidden''), (0, ''mandatory''), (1, ''easyblock-specific''), (2, ''toolchain''),
      (3, ''build'')]"

definition example_base_params :: "string schema" where
  "example_base_params =
     [(''name'', (''None'', ''Name of software'', (0, ''mandatory''))),
      (''version'', (''None'', ''Version of software'', (0, ''mandatory''))),
      (''configopts'', ('''', ''Extra options passed to configure'', (3, ''build'')))]"

definition example_store :: "string store" where
  "example_store = [example_base_params]"

definition example_easyblock :: "string easyblock_class" where
  "example_easyblock =
     \<lparr>cls_name = ''ConfigureMake'',
      extra_options =
        [(''configure_cmd'', (''./configure'', ''Configure command to use'',
                              (1, ''easyblock-specific'')))]\<rparr>"

definition example_env :: "string docs_env" where
  "example_env =
     \<lparr>DEFAULT_CONFIG = 0,
      HIDDEN = (-1, ''hidden''),
      sorted_categories = example_categories,
      ALTERNATIVE_EASYCONFIG_PARAMETERS = [(''env_mod_class'', ''moduleclass'')],
      get_easyblock_class =
        (\<lambda>easyblock. if easyblock = Some ''ConfigureMake'' then Some example_easyblock
                     else None),
      quote_str = (\<lambda>s. s),
      others = Map.empty\<rparr>"

text \<open>
  The same registry with one more base parameter, whose category is \<^verbatim>\<open>HIDDEN\<close>, and
  what the catalog of that registry is.
\<close>

definition example_hidden_params :: "string schema" where
  "example_hidden_params =
     example_base_params @ [(''internal'', (''x'', ''Not for display'', (-1, ''hidden'')))]"

definition example_hidden_store :: "string store" where
  "example_hidden_store = [example_hidden_params]"

definition example_hidden_grouped :: "string grouped" where
  "example_hidden_grouped =
     [(''hidden'', [(''internal'', (''Not for display'', ''x''))]),
      (''mandatory'', [(''name'', (''Name of software'', ''None'')),
                       (''version'', (''Version of software'', ''None''))]),
      (''build'', [(''configopts'', (''Extra options passed to configure'', ''''))])]"

text \<open>Two recipes of one software name, and three recipes that share a version.\<close>

definition example_versions :: "software_info list" where
  "example_versions =
     [\<lparr>toolchain = ''foss/2023a'', description = ''Foo'', homepage = ''https://foo.example'',
       version = ''10.0'', versionsuffix = ''''\<rparr>,
      \<lparr>toolchain = ''foss/2023a'', description = ''Foo'', homepage = ''https://foo.example'',
       version = ''2.0'', versionsuffix = ''''\<rparr>]"

definition example_toolchains :: "software_info list" where
  "example_toolchains =
     [\<lparr>toolchain = ''gompat/2023a'', description = ''Foo'', homepage = ''https://foo.example'',
       version = ''1.0'', versionsuffix = ''''\<rparr>,
      \<lparr>toolchain = ''foss/2023a'', description = ''Foo'', homepage = ''https://foo.example'',
       version = ''1.0'', versionsuffix = ''''\<rparr>,
      \<lparr>toolchain = ''gompat/2023a'', description = ''Foo'', homepage = ''https://foo.example'',
       version = ''1.0'', versionsuffix = ''''\<rparr>]"

text \<open>A package with one module that defines an easyblock and one that defines none.\<close>

definition example_modules :: "string \<Rightarrow> py_module list" where
  "example_modules package_name =
     [\<lparr>mod_name = ''easybuild.easyblocks.generic.configuremake'',
       mod_classes =
         [\<lparr>class_name = ''ConfigureMake'',
           class_module = ''easybuild.easyblocks.generic.configuremake'',
           class_mro = [''ConfigureMake'', ''EasyBlock'', ''object''],
           class_dict = []\<rparr>]\<rparr>,
      \<lparr>mod_name = ''easybuild.easyblocks.generic.helpers'',
       mod_classes =
         [\<lparr>class_name = ''OrderedDict'', class_module = ''collections'',
           class_mro = [''OrderedDict'', ''dict'', ''object''],
           class_dict = []\<rparr>]\<rparr>]"

text \<open>
  An easyblock that defines \<^verbatim>\<open>configure_step\<close> with a docstring and does not define
  \<^verbatim>\<open>build_step\<close>.
\<close>

definition example_hook_class :: py_class where
  "example_hook_class =
     \<lparr>class_name = ''Example'',
      class_module = ''easybuild.easyblocks.generic.example'',
      class_mro = [''Example'', ''EasyBlock'', ''object''],
      class_dict = [(''configure_step'', Attribute (Some ''Configure the build.''))]\<rparr>"

text \<open>What the catalog of the example is, for the easyblock \<^verbatim>\<open>ConfigureMake\<close>.\<close>

definition example_merged :: "string schema" where
  "example_merged =
     example_base_params @
     [(''configure_cmd'', (''./configure'', ''Configure command to use'',
                           (1, ''easyblock-specific'')))]"

definition example_title :: string where
  "example_title =
     ''Available easyconfig parameters ('' @
     ''* indicates specific to the ConfigureMake easyblock)''"

definition example_grouped :: "string grouped" where
  "example_grouped =
     [(''mandatory'', [(''name'', (''Name of software'', ''None'')),
                       (''version'', (''Version of software'', ''None''))]),
      (''easyblock-specific'',
         [(''configure_cmd*'', (''Configure command to use'', ''./configure''))]),
      (''build'', [(''configopts'', (''Extra options passed to configure'', ''''))])]"

definition example_base_grouped :: "string grouped" where
  "example_base_grouped =
     [(''mandatory'', [(''name'', (''Name of software'', ''None'')),
                       (''version'', (''Version of software'', ''None''))]),
      (''build'', [(''configopts'', (''Extra options passed to configure'', ''''))])]"

section \<open>Lemmas\<close>

subsection \<open>The namespace\<close>

lemma docs_globals_bound:
  "docs_globals env ''avail_cfgfile_constants_json'' = Some avail_cfgfile_constants_json"
  "docs_globals env ''avail_easyconfig_constants_json'' = Some avail_easyconfig_constants_json"
  "docs_globals env ''avail_easyconfig_licenses_json'' = Some avail_easyconfig_licenses_json"
  "docs_globals env ''avail_easyconfig_params_json'' = Some avail_easyconfig_params_json"
  "docs_globals env ''avail_easyconfig_templates_json'' = Some avail_easyconfig_templates_json"
  "docs_globals env ''list_toolchains_json'' = Some list_toolchains_json"
  "docs_globals env ''avail_toolchain_opts_json'' = Some avail_toolchain_opts_json"
  "docs_globals env ''gen_easyblocks_overview_json'' = Some gen_easyblocks_overview_json"
  "docs_globals env ''avail_easyconfig_params_txt'' =
     Some (avail_easyconfig_params_txt (quote_str env))"
  by (simp_all add: docs_globals_def json_stubs_def map_add_def)

subsection \<open>Grouping of the parameters\<close>

lemma keys_add_category_params:
  "fst ` set (add_category_params extra c items grp) =
     fst ` set grp \<union>
     marked_name extra ` {name. \<exists>dflt descr. (name, (dflt, descr, c)) \<in> set items}"
proof (induction extra c items grp rule: add_category_params.induct)
  case (1 extra c grp)
  then show ?case by simp
next
  case (2 extra c name dflt descr cat rest grp)
  show ?case
  proof (cases "cat = c")
    case True
    have "{n. \<exists>d ds. (n, (d, ds, c)) \<in> set ((name, (dflt, descr, cat)) # rest)} =
          insert name {n. \<exists>d ds. (n, (d, ds, c)) \<in> set rest}"
      using True by auto
    with 2 True show ?thesis by (simp add: dom_update)
  next
    case False
    have "{n. \<exists>d ds. (n, (d, ds, c)) \<in> set ((name, (dflt, descr, cat)) # rest)} =
          {n. \<exists>d ds. (n, (d, ds, c)) \<in> set rest}"
      using False by auto
    with 2 False show ?thesis by simp
  qed
qed

lemma keys_group_of:
  "fst ` set (group_of params extra c) =
     marked_name extra ` {name. \<exists>dflt descr. (name, (dflt, descr, c)) \<in> set params}"
  by (simp add: group_of_def keys_add_category_params)

lemma group_of_empty:
  "group_of params extra c = [] \<longleftrightarrow>
     \<not> (\<exists>name dflt descr. (name, (dflt, descr, c)) \<in> set params)"
proof -
  have "group_of params extra c = [] \<longleftrightarrow> fst ` set (group_of params extra c) = {}"
    by simp
  also have "\<dots> \<longleftrightarrow> \<not> (\<exists>name dflt descr. (name, (dflt, descr, c)) \<in> set params)"
    by (simp add: keys_group_of)
  finally show ?thesis .
qed

lemma hidden_test_never_holds: "PyStr label \<notin> set [PyTuple hid]"
  by simp

lemma group_params_Cons:
  "group_params hid params extra (c # rest) G =
     group_params hid params extra rest (group_step params extra c G)"
  by (simp add: group_step_def group_of_def Let_def)

lemma map_of_group_step:
  "map_of (group_step params extra c G) =
     (if group_of params extra c = [] then (map_of G)(snd c := None)
      else (map_of G)(snd c \<mapsto> group_of params extra c))"
  by (simp add: group_step_def Let_def update_conv' delete_conv')

lemma distinct_group_step:
  "distinct (map fst G) \<Longrightarrow> distinct (map fst (group_step params extra c G))"
  by (simp add: group_step_def Let_def distinct_update distinct_delete)

lemma distinct_group_params:
  "distinct (map fst G) \<Longrightarrow> distinct (map fst (group_params hid params extra cats G))"
proof (induction cats arbitrary: G)
  case Nil
  then show ?case by simp
next
  case (Cons c cats)
  then show ?case
    by (simp add: group_params_Cons distinct_group_step del: group_params.simps)
qed

lemma map_of_group_params_sound:
  "map_of (group_params hid params extra cats G) g = Some grp \<Longrightarrow>
     map_of G g = Some grp \<or>
     (\<exists>c \<in> set cats. g = snd c \<and> grp = group_of params extra c \<and> grp \<noteq> [])"
proof (induction cats arbitrary: G)
  case Nil
  then show ?case by simp
next
  case (Cons c cats)
  from Cons.prems
  have "map_of (group_params hid params extra cats (group_step params extra c G)) g = Some grp"
    by (simp add: group_params_Cons del: group_params.simps)
  from Cons.IH[OF this]
  consider "map_of (group_step params extra c G) g = Some grp"
    | "\<exists>c \<in> set cats. g = snd c \<and> grp = group_of params extra c \<and> grp \<noteq> []"
    by blast
  then show ?case
  proof cases
    case 1
    then show ?thesis
      by (auto simp: map_of_group_step split: if_splits)
  next
    case 2
    then show ?thesis by auto
  qed
qed

lemma map_of_group_params_other:
  "g \<notin> snd ` set cats \<Longrightarrow>
     map_of (group_params hid params extra cats G) g = map_of G g"
proof (induction cats arbitrary: G)
  case Nil
  then show ?case by simp
next
  case (Cons c cats)
  then have IH: "\<And>G. map_of (group_params hid params extra cats G) g = map_of G g"
    by auto
  from Cons.prems have "g \<noteq> snd c" by auto
  then show ?case
    by (simp add: group_params_Cons IH map_of_group_step del: group_params.simps)
qed

lemma map_of_group_params_complete:
  "distinct (map snd cats) \<Longrightarrow> c \<in> set cats \<Longrightarrow>
     map_of (group_params hid params extra cats G) (snd c) =
       (if group_of params extra c = [] then None else Some (group_of params extra c))"
proof (induction cats arbitrary: G)
  case Nil
  then show ?case by simp
next
  case (Cons a cats)
  show ?case
  proof (cases "a = c")
    case True
    have notin: "snd c \<notin> snd ` set cats"
      using Cons.prems(1) True by auto
    show ?thesis using True
      by (simp add: group_params_Cons map_of_group_params_other[OF notin] map_of_group_step
          del: group_params.simps)
  next
    case False
    with Cons.prems have c: "c \<in> set cats" and d: "distinct (map snd cats)" by auto
    show ?thesis
      by (simp add: group_params_Cons Cons.IH[OF d c] del: group_params.simps)
  qed
qed

lemma grouped_member:
  assumes "(g, grp) \<in> set (group_params hid params extra cats [])"
  shows "\<exists>c \<in> set cats. g = snd c \<and> grp = group_of params extra c \<and> grp \<noteq> []"
proof -
  have "distinct (map fst (group_params hid params extra cats []))"
    by (rule distinct_group_params) simp
  with assms have "map_of (group_params hid params extra cats []) g = Some grp"
    by simp
  from map_of_group_params_sound[OF this] show ?thesis by simp
qed

subsection \<open>The store and the catalog\<close>

lemma catalog_store:
  "DEFAULT_CONFIG env < length h \<Longrightarrow>
     fst (easyconfig_params_catalog env h easyblock) = h @ [merged_params env h easyblock]"
  by (simp add: easyconfig_params_catalog_def deepcopy_def store_update_def Let_def
      merged_params_def nth_append)

lemma catalog_grouped:
  "DEFAULT_CONFIG env < length h \<Longrightarrow>
     fst (snd (snd (easyconfig_params_catalog env h easyblock))) =
       group_params (HIDDEN env) (merged_params env h easyblock)
         (extra_params_of env easyblock) (sorted_categories env) []"
  by (simp add: easyconfig_params_catalog_def deepcopy_def store_update_def Let_def
      merged_params_def nth_append)

lemma catalog_member:
  assumes "DEFAULT_CONFIG env < length h"
    and "easyconfig_params_catalog env h easyblock =
           (h', title, grouped_params, alternative_params)"
    and "(grpname, grp) \<in> set grouped_params"
  shows "\<exists>c \<in> set (sorted_categories env). grpname = snd c \<and>
           grp = group_of (merged_params env h easyblock) (extra_params_of env easyblock) c \<and>
           grp \<noteq> []"
proof -
  from assms(1,2) have "grouped_params =
      group_params (HIDDEN env) (merged_params env h easyblock)
         (extra_params_of env easyblock) (sorted_categories env) []"
    using catalog_grouped[of env h easyblock] by simp
  with assms(3) show ?thesis using grouped_member by blast
qed

lemma dispatch_of_catalog:
  assumes "easyconfig_params_catalog env h easyblock =
             (h', title, grouped_params, alternative_params)"
  shows "avail_easyconfig_params env h easyblock output_format =
           (h', generate_doc (docs_globals env)
                  (renderer_name ''avail_easyconfig_params'' output_format)
                  [Str title, Grouped grouped_params, Alternatives alternative_params])"
  using assms by (simp add: avail_easyconfig_params_def)

lemma params_txt_groups_total:
  "\<forall>(g, grp) \<in> set G. grp \<noteq> [] \<Longrightarrow> \<exists>doc'. params_txt_groups qs alt G doc = Inr doc'"
proof (induction G arbitrary: doc)
  case Nil
  then show ?case by simp
next
  case (Cons a G)
  obtain g grp where a: "a = (g, grp)" by (cases a)
  with Cons.prems have ne: "grp \<noteq> []" and rest: "\<forall>(g, grp) \<in> set G. grp \<noteq> []" by auto
  from ne have "dict_keys grp \<noteq> []" by (simp add: dict_keys_def)
  then show ?case using Cons.IH[OF rest] a by (simp add: Let_def)
qed

subsection \<open>The examples, evaluated\<close>

lemma example_in_store: "DEFAULT_CONFIG example_env < length example_store"
  by (simp add: example_env_def example_store_def)

lemma example_catalog:
  "easyconfig_params_catalog example_env example_store (Some ''ConfigureMake'') =
     (example_store @ [example_merged], example_title, example_grouped,
      [(''moduleclass'', ''env_mod_class'')])"
  by code_simp

lemma example_base_catalog:
  "easyconfig_params_catalog example_env example_store (Some ''NoSuchEasyBlock'') =
     (example_store @ [example_base_params], ''Available easyconfig parameters'',
      example_base_grouped, [(''moduleclass'', ''env_mod_class'')])"
  by code_simp

subsection \<open>The version tables\<close>

lemma nub_seen_set: "set (nub_seen seen xs) = set xs - set seen"
  by (induction seen xs rule: nub_seen.induct) auto

lemma nub_seen_distinct: "distinct (nub_seen seen xs)"
  by (induction seen xs rule: nub_seen.induct) (auto simp: nub_seen_set)

lemma set_nub: "set (nub xs) = set xs"
  by (simp add: nub_def nub_seen_set)

lemma distinct_nub: "distinct (nub xs)"
  by (simp add: nub_def nub_seen_distinct)

lemma sort_nub:
  fixes xs :: "'a::linorder list"
  shows "sort (nub xs) = sorted_list_of_set (set xs)"
proof -
  have "sorted (sort (nub xs))" "distinct (sort (nub xs))" "set (sort (nub xs)) = set xs"
    by (simp_all add: distinct_nub set_nub)
  then show ?thesis
    by (metis sorted_list_of_set.idem_if_sorted_distinct)
qed

lemma add_version_rows_two:
  "add_version_rows False entries ts [c0, c1] =
     [c0 @ map version_cell ts, c1 @ map (toolchain_cell entries) ts]"
proof (induction ts arbitrary: c0 c1)
  case Nil
  then show ?case by simp
next
  case (Cons t ts)
  obtain l vsuff ver where t: "t = (l, vsuff, ver)" by (cases t)
  show ?case
    by (simp add: t Let_def list_append_at_def Cons.IH version_cell_def toolchain_cell_def)
qed

lemma add_version_rows_three:
  "add_version_rows True entries ts [c0, c1, c2] =
     [c0 @ map version_cell ts, c1 @ map versionsuffix_cell ts,
      c2 @ map (toolchain_cell entries) ts]"
proof (induction ts arbitrary: c0 c1 c2)
  case Nil
  then show ?case by simp
next
  case (Cons t ts)
  obtain l vsuff ver where t: "t = (l, vsuff, ver)" by (cases t)
  show ?case
    by (simp add: t Let_def list_append_at_def Cons.IH version_cell_def toolchain_cell_def
        versionsuffix_cell_def)
qed

lemma with_vsuff_iff:
  "list_ex (\<lambda>(_, vs). vs \<noteq> '''') (version_pairs entries) \<longleftrightarrow>
     (\<exists>x \<in> set entries. versionsuffix x \<noteq> '''')"
  by (auto simp: list_ex_iff version_pairs_def set_nub)

lemma list_software_md_table_eq:
  "list_software_md_table lv entries =
     (if \<exists>x \<in> set entries. versionsuffix x \<noteq> ''''
      then ([''version'', ''versionsuffix'', ''toolchain''],
            [map version_cell (sorted_version_pairs lv (version_pairs entries)),
             map versionsuffix_cell (sorted_version_pairs lv (version_pairs entries)),
             map (toolchain_cell entries) (sorted_version_pairs lv (version_pairs entries))])
      else ([''version'', ''toolchain''],
            [map version_cell (sorted_version_pairs lv (version_pairs entries)),
             map (toolchain_cell entries) (sorted_version_pairs lv (version_pairs entries))]))"
  unfolding list_software_md_table_def Let_def with_vsuff_iff
  by (simp add: list_insert_def add_version_rows_two add_version_rows_three)

lemma sorted_version_pairs_sorted:
  "sorted (sorted_version_pairs lv (version_pairs entries))"
  by (simp add: sorted_version_pairs_def)

lemma sorted_version_pairs_distinct:
  "distinct (sorted_version_pairs lv (version_pairs entries))"
proof -
  have "inj_on (\<lambda>(v, vs). (lv v, vs, v)) (set (version_pairs entries))"
    by (auto simp: inj_on_def)
  then show ?thesis
    by (simp add: sorted_version_pairs_def distinct_map version_pairs_def distinct_nub)
qed

lemma sorted_version_pairs_set:
  "set (sorted_version_pairs lv (version_pairs entries)) =
     (\<lambda>x. (lv (version x), versionsuffix x, version x)) ` set entries"
  by (auto simp: sorted_version_pairs_def version_pairs_def set_nub image_iff)

lemma sorted_by_version_then_suffix:
  fixes ts :: "('v::linorder \<times> string \<times> string) list"
  shows "sorted ts \<Longrightarrow> sorted (map (\<lambda>(l, vsuff, ver). (l, vsuff)) ts)"
  by (induction ts) (auto simp: less_eq_prod_def less_prod_def)

lemma toolchains_of_set:
  "set (toolchains_of entries ver vsuff) =
     {toolchain x | x. x \<in> set entries \<and> version x = ver \<and> versionsuffix x = vsuff}"
  by (auto simp: toolchains_of_def)

subsection \<open>The scan of the modules\<close>

lemma scan_members_found:
  "snd (scan_members package_name cs (ebs, found)) =
     (found \<or> (\<exists>c \<in> set cs. is_easyblock_in package_name c))"
  by (induction cs arbitrary: ebs found) auto

lemma scan_modules_raises:
  "\<exists>m \<in> set mods. \<forall>c \<in> set (mod_classes m). \<not> is_easyblock_in package_name c \<Longrightarrow>
     \<exists>m \<in> set mods. (\<forall>c \<in> set (mod_classes m). \<not> is_easyblock_in package_name c) \<and>
       scan_modules package_name mods ebs =
         Inl (RuntimeError ''No easyblocks found in module: %s'' (mod_name m))"
proof (induction mods arbitrary: ebs)
  case Nil
  then show ?case by simp
next
  case (Cons m mods)
  obtain ebs1 found where s: "scan_members package_name (mod_classes m) (ebs, False) = (ebs1, found)"
    by (cases "scan_members package_name (mod_classes m) (ebs, False)")
  have found: "found = (\<exists>c \<in> set (mod_classes m). is_easyblock_in package_name c)"
    using scan_members_found[of package_name "mod_classes m" ebs False] s by simp
  show ?case
  proof (cases found)
    case False
    with found s show ?thesis by auto
  next
    case True
    with found Cons.prems
    have "\<exists>m \<in> set mods. \<forall>c \<in> set (mod_classes m). \<not> is_easyblock_in package_name c"
      by auto
    from Cons.IH[OF this, of ebs1] True s show ?thesis by auto
  qed
qed

section \<open>The claims\<close>

subsection \<open>Unsupported formats\<close>

text \<open>
  Claim C1. A composed name that the module does not bind makes the dispatch raise
  \<^verbatim>\<open>KeyError\<close> with that name, which is the report and the format; the json functions
  that are stubs raise \<^verbatim>\<open>NotImplementedError\<close> with a message that names the format and
  the report. In both cases the result is the exception, never text.
\<close>

theorem generate_doc_unsupported_format:
  "(docs_globals env (renderer_name report output_format) = None \<longrightarrow>
      generate_doc (docs_globals env) (renderer_name report output_format) params =
        Inl (KeyError (report @ ''_'' @ output_format)))
   \<and> avail_cfgfile_constants env go_cfg_constants ''json'' =
        Inl (NotImplementedError
               ''JSON output format not supported for avail_cfgfile_constants_json'')
   \<and> avail_easyconfig_constants env ''json'' =
        Inl (NotImplementedError
               ''JSON output format not supported for avail_easyconfig_constants_json'')
   \<and> avail_easyconfig_licenses env ''json'' =
        Inl (NotImplementedError
               ''JSON output format not supported for avail_easyconfig_licenses_json'')
   \<and> avail_easyconfig_templates env ''json'' =
        Inl (NotImplementedError
               ''JSON output format not supported for avail_easyconfig_templates'')
   \<and> snd (avail_easyconfig_params env h easyblock ''json'') =
        Inl (NotImplementedError
               ''JSON output format not supported for avail_easyconfig_params_json'')
   \<and> generate_doc (docs_globals env) (renderer_name ''list_toolchains'' ''json'') [tcs] =
        Inl (NotImplementedError ''JSON output not implemented yet for --list-toolchains'')
   \<and> generate_doc (docs_globals env) (renderer_name ''avail_toolchain_opts'' ''json'')
        [name, tc_dict] =
        Inl (NotImplementedError ''JSON output not implemented yet for --avail-toolchain-opts'')
   \<and> generate_doc (docs_globals env) (renderer_name ''gen_easyblocks_overview'' ''json'')
        [package_name, path_to_examples] =
        Inl (NotImplementedError ''JSON output not implemented yet for gen_easyblocks_overview'')"
  by (simp add: generate_doc_def renderer_name_def docs_globals_bound
      avail_cfgfile_constants_def avail_easyconfig_constants_def avail_easyconfig_licenses_def
      avail_easyconfig_templates_def avail_easyconfig_params_def
      avail_cfgfile_constants_json_def avail_easyconfig_constants_json_def
      avail_easyconfig_licenses_json_def avail_easyconfig_templates_json_def
      avail_easyconfig_params_json_def list_toolchains_json_def avail_toolchain_opts_json_def
      gen_easyblocks_overview_json_def
      split: prod.splits)

theorem generate_doc_unsupported_format_witness:
  "docs_globals example_env (renderer_name ''avail_easyconfig_params'' ''xml'') = None \<and>
   generate_doc (docs_globals example_env) (renderer_name ''avail_easyconfig_params'' ''xml'')
     [Str ''t'', Grouped [], Alternatives []] =
     Inl (KeyError ''avail_easyconfig_params_xml'')"
proof -
  have unbound:
    "docs_globals example_env (renderer_name ''avail_easyconfig_params'' ''xml'') = None"
    by (simp add: docs_globals_def json_stubs_def map_add_def renderer_name_def example_env_def)
  from generate_doc_unsupported_format
         [of example_env "''avail_easyconfig_params''" "''xml''"
             "[Str ''t'', Grouped [], Alternatives []]", THEN conjunct1]
       unbound
  show ?thesis by simp
qed

subsection \<open>The parameter catalog\<close>

text \<open>
  Claim C5. Every group of the catalog is the group of one category, and the names
  rendered in it are exactly the names of the parameters of that category, where a name
  among the extra parameters of the easyblock gets one \<^verbatim>\<open>*\<close> appended and any other name
  is rendered as it is. For a name that has no \<^verbatim>\<open>*\<close> of its own, the rendered name has
  one \<^verbatim>\<open>*\<close> when it is an extra parameter and none otherwise.
\<close>

theorem extra_params_marked_once:
  assumes "DEFAULT_CONFIG env < length h"
    and "easyconfig_params_catalog env h easyblock =
           (h', title, grouped_params, alternative_params)"
    and "(grpname, grp) \<in> set grouped_params"
  shows "(\<exists>category \<in> set (sorted_categories env). grpname = snd category \<and>
           set (dict_keys grp) =
             (\<lambda>name. if dict_contains (extra_params_of env easyblock) name
                      then name @ ''*'' else name) `
             {name. \<exists>dflt descr.
                (name, (dflt, descr, category)) \<in> set (merged_params env h easyblock)})
         \<and> (\<forall>name. CHR ''*'' \<notin> set name \<longrightarrow>
              count_list (marked_name (extra_params_of env easyblock) name) CHR ''*'' =
                (if dict_contains (extra_params_of env easyblock) name then 1 else 0))"
proof (intro conjI allI impI)
  fix name :: string
  assume "CHR ''*'' \<notin> set name"
  then show "count_list (marked_name (extra_params_of env easyblock) name) CHR ''*'' =
               (if dict_contains (extra_params_of env easyblock) name then 1 else 0)"
    by (simp add: marked_name_def count_list_0_iff)
next
  from catalog_member[OF assms]
  obtain c where c: "c \<in> set (sorted_categories env)" "grpname = snd c"
      "grp = group_of (merged_params env h easyblock) (extra_params_of env easyblock) c"
    by blast
  have "marked_name (extra_params_of env easyblock) =
        (\<lambda>name. if dict_contains (extra_params_of env easyblock) name
                      then name @ ''*'' else name)"
    by (rule ext) (simp add: marked_name_def)
  with c show "\<exists>category \<in> set (sorted_categories env). grpname = snd category \<and>
           set (dict_keys grp) =
             (\<lambda>name. if dict_contains (extra_params_of env easyblock) name
                      then name @ ''*'' else name) `
             {name. \<exists>dflt descr.
                (name, (dflt, descr, category)) \<in> set (merged_params env h easyblock)}"
    using keys_group_of[of "merged_params env h easyblock" "extra_params_of env easyblock" c]
    by (auto simp: dict_keys_def)
qed

theorem extra_params_marked_once_witness:
  "DEFAULT_CONFIG example_env < length example_store \<and>
   easyconfig_params_catalog example_env example_store (Some ''ConfigureMake'') =
     (example_store @ [example_merged], example_title, example_grouped,
      [(''moduleclass'', ''env_mod_class'')]) \<and>
   (''easyblock-specific'',
      [(''configure_cmd*'', (''Configure command to use'', ''./configure''))])
     \<in> set example_grouped \<and>
   (\<exists>category \<in> set (sorted_categories example_env).
      ''easyblock-specific'' = snd category \<and>
      set (dict_keys [(''configure_cmd*'', (''Configure command to use'', ''./configure''))]) =
        (\<lambda>name. if dict_contains (extra_params_of example_env (Some ''ConfigureMake'')) name
                 then name @ ''*'' else name) `
        {name. \<exists>dflt descr.
           (name, (dflt, descr, category))
             \<in> set (merged_params example_env example_store (Some ''ConfigureMake''))}) \<and>
   CHR ''*'' \<notin> set ''configure_cmd'' \<and>
   dict_contains (extra_params_of example_env (Some ''ConfigureMake'')) ''configure_cmd'' \<and>
   count_list (marked_name (extra_params_of example_env (Some ''ConfigureMake''))
                 ''configure_cmd'') CHR ''*'' = 1 \<and>
   CHR ''*'' \<notin> set ''name'' \<and>
   \<not> dict_contains (extra_params_of example_env (Some ''ConfigureMake'')) ''name'' \<and>
   count_list (marked_name (extra_params_of example_env (Some ''ConfigureMake''))
                 ''name'') CHR ''*'' = 0"
proof -
  have member: "(''easyblock-specific'',
      [(''configure_cmd*'', (''Configure command to use'', ''./configure''))])
     \<in> set example_grouped"
    by (simp add: example_grouped_def)
  have plain: "CHR ''*'' \<notin> set ''configure_cmd''" "CHR ''*'' \<notin> set ''name''"
    by simp_all
  have extra:
    "dict_contains (extra_params_of example_env (Some ''ConfigureMake'')) ''configure_cmd''"
    "\<not> dict_contains (extra_params_of example_env (Some ''ConfigureMake'')) ''name''"
    by (simp_all add: dict_contains_def extra_params_of_def example_env_def
        example_easyblock_def)
  note inst = extra_params_marked_once[OF example_in_store example_catalog member]
  from inst[THEN conjunct2, rule_format, OF plain(1)] extra(1)
  have once: "count_list (marked_name (extra_params_of example_env (Some ''ConfigureMake''))
                 ''configure_cmd'') CHR ''*'' = 1"
    by simp
  from inst[THEN conjunct2, rule_format, OF plain(2)] extra(2)
  have never: "count_list (marked_name (extra_params_of example_env (Some ''ConfigureMake''))
                 ''name'') CHR ''*'' = 0"
    by simp
  from inst[THEN conjunct1] example_in_store example_catalog member plain extra once never
  show ?thesis by blast
qed

text \<open>
  Claim C6. The registry of the example has the parameter \<^verbatim>\<open>internal\<close>, whose category is
  \<^verbatim>\<open>HIDDEN\<close>. The test of line 445 compares a string with that tuple and does not hold
  for the hidden category, so the category is not skipped: the catalog has the group
  \<^verbatim>\<open>hidden\<close> with \<^verbatim>\<open>internal\<close> in it, and the txt format renders both.
\<close>

theorem hidden_category_is_rendered:
  "(''internal'', (''x'', ''Not for display'', HIDDEN example_env))
     \<in> set (example_hidden_store ! DEFAULT_CONFIG example_env) \<and>
   HIDDEN example_env \<in> set (sorted_categories example_env) \<and>
   PyStr (upper (snd (HIDDEN example_env))) \<notin> set [PyTuple (HIDDEN example_env)] \<and>
   fst (snd (snd (easyconfig_params_catalog example_env example_hidden_store None))) =
     example_hidden_grouped \<and>
   map_of example_hidden_grouped ''hidden'' = Some [(''internal'', (''Not for display'', ''x''))] \<and>
   snd (avail_easyconfig_params example_env example_hidden_store None ''txt'') =
     Inr (join [CHR 0x0A]
       [''Available easyconfig parameters:'', '''',
        ''HIDDEN'', ''------'',
        ''internal   Not for display [default: x]'', '''',
        ''MANDATORY'', ''---------'',
        ''name      Name of software [default: None]'',
        ''version   Version of software [default: None]'', '''',
        ''BUILD'', ''-----'',
        ''configopts   Extra options passed to configure [default: ]'', ''''])"
  by code_simp

text \<open>
  Claim C10. No group of the catalog is empty; when the labels of the categories are
  distinct, the label of a category without parameters is not a key of the catalog; and
  every format gets this same catalog, so no format has a heading for such a category.
\<close>

theorem empty_groups_omitted:
  assumes "DEFAULT_CONFIG env < length h"
    and "easyconfig_params_catalog env h easyblock =
           (h', title, grouped_params, alternative_params)"
  shows "(\<forall>(grpname, grp) \<in> set grouped_params. grp \<noteq> [])
         \<and> (distinct (map snd (sorted_categories env)) \<longrightarrow>
              (\<forall>category \<in> set (sorted_categories env).
                 \<not> (\<exists>name dflt descr.
                       (name, (dflt, descr, category)) \<in> set (merged_params env h easyblock)) \<longrightarrow>
                 snd category \<notin> set (dict_keys grouped_params)))
         \<and> (\<forall>output_format.
              snd (avail_easyconfig_params env h easyblock output_format) =
                generate_doc (docs_globals env)
                  (renderer_name ''avail_easyconfig_params'' output_format)
                  [Str title, Grouped grouped_params, Alternatives alternative_params])"
proof (intro conjI)
  show "\<forall>(grpname, grp) \<in> set grouped_params. grp \<noteq> []"
    using catalog_member[OF assms] by fastforce
next
  show "distinct (map snd (sorted_categories env)) \<longrightarrow>
          (\<forall>category \<in> set (sorted_categories env).
             \<not> (\<exists>name dflt descr.
                   (name, (dflt, descr, category)) \<in> set (merged_params env h easyblock)) \<longrightarrow>
             snd category \<notin> set (dict_keys grouped_params))"
  proof (intro impI ballI notI)
    fix category
    assume d: "distinct (map snd (sorted_categories env))"
      and cat: "category \<in> set (sorted_categories env)"
      and none: "\<not> (\<exists>name dflt descr.
                   (name, (dflt, descr, category)) \<in> set (merged_params env h easyblock))"
      and key: "snd category \<in> set (dict_keys grouped_params)"
    from key obtain grp where "(snd category, grp) \<in> set grouped_params"
      by (auto simp: dict_keys_def)
    from catalog_member[OF assms this]
    obtain c where c: "c \<in> set (sorted_categories env)" "snd category = snd c"
        "grp = group_of (merged_params env h easyblock) (extra_params_of env easyblock) c"
        "grp \<noteq> []"
      by blast
    from d have "inj_on snd (set (sorted_categories env))"
      by (simp add: distinct_map)
    with cat c(1,2) have "c = category" by (auto dest: inj_onD)
    with c(3,4) none show False by (simp add: group_of_empty)
  qed
next
  show "\<forall>output_format.
          snd (avail_easyconfig_params env h easyblock output_format) =
            generate_doc (docs_globals env)
              (renderer_name ''avail_easyconfig_params'' output_format)
              [Str title, Grouped grouped_params, Alternatives alternative_params]"
    by (simp add: dispatch_of_catalog[OF assms(2)])
qed

theorem empty_groups_omitted_witness:
  "DEFAULT_CONFIG example_env < length example_store \<and>
   easyconfig_params_catalog example_env example_store (Some ''ConfigureMake'') =
     (example_store @ [example_merged], example_title, example_grouped,
      [(''moduleclass'', ''env_mod_class'')]) \<and>
   distinct (map snd (sorted_categories example_env)) \<and>
   (2, ''toolchain'') \<in> set (sorted_categories example_env) \<and>
   \<not> (\<exists>name dflt descr.
         (name, (dflt, descr, (2, ''toolchain'')))
           \<in> set (merged_params example_env example_store (Some ''ConfigureMake''))) \<and>
   ''toolchain'' \<notin> set (dict_keys example_grouped) \<and>
   list_all (\<lambda>(grpname, grp). grp \<noteq> []) example_grouped"
proof -
  have d: "distinct (map snd (sorted_categories example_env))"
    and c: "(2, ''toolchain'') \<in> set (sorted_categories example_env)"
    by (simp_all add: example_env_def example_categories_def)
  have m: "merged_params example_env example_store (Some ''ConfigureMake'') = example_merged"
    by code_simp
  have none: "\<not> (\<exists>name dflt descr.
         (name, (dflt, descr, (2, ''toolchain'')))
           \<in> set (merged_params example_env example_store (Some ''ConfigureMake'')))"
    unfolding m by (simp add: example_merged_def example_base_params_def)
  note inst = empty_groups_omitted[OF example_in_store example_catalog]
  from inst[THEN conjunct2, THEN conjunct1] d c none
  have absent: "''toolchain'' \<notin> set (dict_keys example_grouped)"
    by fastforce
  from inst[THEN conjunct1]
  have full: "list_all (\<lambda>(grpname, grp). grp \<noteq> []) example_grouped"
    by (simp only: list_all_iff)
  from example_in_store example_catalog d c none absent full show ?thesis by blast
qed

text \<open>
  Claim C7. When the lookup of the easyblock gives \<^verbatim>\<open>None\<close>, the catalog is the one of
  the base parameters alone: the title has no qualifier, the groups are built from
  \<^verbatim>\<open>DEFAULT_CONFIG\<close> with no extra parameters, so every rendered name is a key of
  \<^verbatim>\<open>DEFAULT_CONFIG\<close>, and the txt format returns text.
\<close>

theorem unknown_easyblock_gives_base_catalog:
  assumes "DEFAULT_CONFIG env < length h"
    and "get_easyblock_class env easyblock = None"
  shows "easyconfig_params_catalog env h easyblock =
           (h @ [h ! DEFAULT_CONFIG env], ''Available easyconfig parameters'',
            group_params (HIDDEN env) (h ! DEFAULT_CONFIG env) [] (sorted_categories env) [],
            reverse_mapping (ALTERNATIVE_EASYCONFIG_PARAMETERS env))
         \<and> (\<forall>output_format.
              snd (avail_easyconfig_params env h easyblock output_format) =
                generate_doc (docs_globals env)
                  (renderer_name ''avail_easyconfig_params'' output_format)
                  [Str ''Available easyconfig parameters'',
                   Grouped (group_params (HIDDEN env) (h ! DEFAULT_CONFIG env) []
                              (sorted_categories env) []),
                   Alternatives (reverse_mapping (ALTERNATIVE_EASYCONFIG_PARAMETERS env))])
         \<and> (\<exists>text. snd (avail_easyconfig_params env h easyblock ''txt'') = Inr text)
         \<and> (\<forall>(grpname, grp) \<in> set (group_params (HIDDEN env) (h ! DEFAULT_CONFIG env) []
                                       (sorted_categories env) []).
              set (dict_keys grp) \<subseteq> set (dict_keys (h ! DEFAULT_CONFIG env)))"
proof -
  let ?base = "h ! DEFAULT_CONFIG env"
  let ?G = "group_params (HIDDEN env) ?base [] (sorted_categories env) []"
  let ?alt = "reverse_mapping (ALTERNATIVE_EASYCONFIG_PARAMETERS env)"
  have extra: "extra_params_of env easyblock = []"
    using assms(2) by (simp add: extra_params_of_def)
  have cat: "easyconfig_params_catalog env h easyblock =
           (h @ [?base], ''Available easyconfig parameters'', ?G, ?alt)"
    using assms
    by (simp add: easyconfig_params_catalog_def deepcopy_def store_update_def Let_def extra
        dict_update_def nth_append)
  have disp: "\<forall>output_format.
              snd (avail_easyconfig_params env h easyblock output_format) =
                generate_doc (docs_globals env)
                  (renderer_name ''avail_easyconfig_params'' output_format)
                  [Str ''Available easyconfig parameters'', Grouped ?G, Alternatives ?alt]"
    by (simp add: dispatch_of_catalog[OF cat])
  have nonempty: "\<forall>(g, grp) \<in> set ?G. grp \<noteq> []"
    using grouped_member[of _ _ "HIDDEN env" ?base "[]" "sorted_categories env"] by fastforce
  from params_txt_groups_total[OF nonempty]
  obtain doc' where "params_txt_groups (quote_str env) ?alt ?G
                       [''Available easyconfig parameters'' @ '':'', ''''] = Inr doc'"
    by blast
  then have rendered: "\<exists>text. snd (avail_easyconfig_params env h easyblock ''txt'') = Inr text"
    by (simp add: dispatch_of_catalog[OF cat] generate_doc_def renderer_name_def
        docs_globals_bound avail_easyconfig_params_txt_def)
  have names: "\<forall>(grpname, grp) \<in> set ?G. set (dict_keys grp) \<subseteq> set (dict_keys ?base)"
  proof (intro ballI)
    fix x assume x: "x \<in> set ?G"
    obtain g grp where xeq: "x = (g, grp)" by (cases x)
    from grouped_member[of g grp "HIDDEN env" ?base "[]" "sorted_categories env"] x xeq
    obtain c where "grp = group_of ?base [] c" by blast
    then have "set (dict_keys grp) \<subseteq> set (dict_keys ?base)"
      using keys_group_of[of ?base "[]" c]
      by (auto simp: dict_keys_def marked_name_def dict_contains_def intro: rev_image_eqI)
    then show "case x of (grpname, grp) \<Rightarrow> set (dict_keys grp) \<subseteq> set (dict_keys ?base)"
      by (simp add: xeq)
  qed
  from cat disp rendered names show ?thesis by blast
qed

theorem unknown_easyblock_gives_base_catalog_witness:
  "DEFAULT_CONFIG example_env < length example_store \<and>
   get_easyblock_class example_env (Some ''NoSuchEasyBlock'') = None \<and>
   easyconfig_params_catalog example_env example_store (Some ''NoSuchEasyBlock'') =
     (example_store @ [example_base_params], ''Available easyconfig parameters'',
      example_base_grouped, [(''moduleclass'', ''env_mod_class'')]) \<and>
   snd (avail_easyconfig_params example_env example_store (Some ''NoSuchEasyBlock'') ''txt'') =
     Inr (join [CHR 0x0A]
       [''Available easyconfig parameters:'', '''',
        ''MANDATORY'', ''---------'',
        ''name      Name of software [default: None]'',
        ''version   Version of software [default: None]'', '''',
        ''BUILD'', ''-----'',
        ''configopts   Extra options passed to configure [default: ]'', ''''])"
proof -
  have unknown: "get_easyblock_class example_env (Some ''NoSuchEasyBlock'') = None"
    by (simp add: example_env_def)
  have base: "example_store ! DEFAULT_CONFIG example_env = example_base_params"
    by (simp add: example_env_def example_store_def)
  have groups: "group_params (HIDDEN example_env) example_base_params []
                  (sorted_categories example_env) [] = example_base_grouped"
    by code_simp
  have alt: "reverse_mapping (ALTERNATIVE_EASYCONFIG_PARAMETERS example_env) =
               [(''moduleclass'', ''env_mod_class'')]"
    by code_simp
  note inst = unknown_easyblock_gives_base_catalog[OF example_in_store unknown]
  from inst[THEN conjunct1]
  have cat: "easyconfig_params_catalog example_env example_store (Some ''NoSuchEasyBlock'') =
     (example_store @ [example_base_params], ''Available easyconfig parameters'',
      example_base_grouped, [(''moduleclass'', ''env_mod_class'')])"
    by (simp only: base groups alt)
  have rendered: "generate_doc (docs_globals example_env)
               (renderer_name ''avail_easyconfig_params'' ''txt'')
               [Str ''Available easyconfig parameters'', Grouped example_base_grouped,
                Alternatives [(''moduleclass'', ''env_mod_class'')]] =
     Inr (join [CHR 0x0A]
       [''Available easyconfig parameters:'', '''',
        ''MANDATORY'', ''---------'',
        ''name      Name of software [default: None]'',
        ''version   Version of software [default: None]'', '''',
        ''BUILD'', ''-----'',
        ''configopts   Extra options passed to configure [default: ]'', ''''])"
    by code_simp
  from inst[THEN conjunct2, THEN conjunct1, rule_format, of "''txt''"]
  have "snd (avail_easyconfig_params example_env example_store (Some ''NoSuchEasyBlock'') ''txt'') =
     Inr (join [CHR 0x0A]
       [''Available easyconfig parameters:'', '''',
        ''MANDATORY'', ''---------'',
        ''name      Name of software [default: None]'',
        ''version   Version of software [default: None]'', '''',
        ''BUILD'', ''-----'',
        ''configopts   Extra options passed to configure [default: ]'', ''''])"
    by (simp only: base groups alt rendered)
  with example_in_store unknown cat show ?thesis by blast
qed

text \<open>
  Claim C9. The call leaves every dictionary that was in the store before it as it was,
  the one at the address of \<^verbatim>\<open>DEFAULT_CONFIG\<close> among them: the merge writes to the copy,
  which is the one new dictionary of the store.
\<close>

theorem base_schema_unchanged:
  assumes "DEFAULT_CONFIG env < length h"
  shows "fst (avail_easyconfig_params env h easyblock output_format) ! DEFAULT_CONFIG env =
           h ! DEFAULT_CONFIG env
         \<and> take (length h) (fst (avail_easyconfig_params env h easyblock output_format)) = h
         \<and> fst (avail_easyconfig_params env h easyblock output_format) =
             h @ [merged_params env h easyblock]"
proof -
  have "fst (avail_easyconfig_params env h easyblock output_format) =
          fst (easyconfig_params_catalog env h easyblock)"
    by (simp add: avail_easyconfig_params_def split: prod.splits)
  with catalog_store[OF assms, of easyblock]
  have eq: "fst (avail_easyconfig_params env h easyblock output_format) =
              h @ [merged_params env h easyblock]"
    by simp
  show ?thesis using assms by (simp add: eq nth_append)
qed

theorem base_schema_unchanged_witness:
  "DEFAULT_CONFIG example_env < length example_store \<and>
   extra_params_of example_env (Some ''ConfigureMake'') \<noteq> [] \<and>
   fst (avail_easyconfig_params example_env example_store (Some ''ConfigureMake'') ''txt'')
     ! DEFAULT_CONFIG example_env = example_base_params \<and>
   fst (avail_easyconfig_params example_env example_store (Some ''ConfigureMake'') ''txt'') =
     [example_base_params, example_merged]"
proof -
  have extra: "extra_params_of example_env (Some ''ConfigureMake'') \<noteq> []"
    by (simp add: extra_params_of_def example_env_def example_easyblock_def)
  have base: "example_store ! DEFAULT_CONFIG example_env = example_base_params"
    by (simp add: example_env_def example_store_def)
  have m: "merged_params example_env example_store (Some ''ConfigureMake'') = example_merged"
    by code_simp
  note inst = base_schema_unchanged[OF example_in_store, of "Some ''ConfigureMake''" "''txt''"]
  from inst[THEN conjunct1] base
  have a: "fst (avail_easyconfig_params example_env example_store (Some ''ConfigureMake'') ''txt'')
     ! DEFAULT_CONFIG example_env = example_base_params"
    by simp
  from inst[THEN conjunct2, THEN conjunct2] m
  have b: "fst (avail_easyconfig_params example_env example_store (Some ''ConfigureMake'') ''txt'') =
     [example_base_params, example_merged]"
    by (simp add: example_store_def)
  from example_in_store extra a b show ?thesis by blast
qed

subsection \<open>The software list\<close>

text \<open>
  Claim C2. The rows of the version table of a software name are the distinct pairs of
  version and versionsuffix, in ascending order of the loose version and then of the
  versionsuffix; the table has a versionsuffix column exactly when some entry has a
  versionsuffix that is not empty. The md and rst tables are the same, and the txt lines
  follow the same order.
\<close>

theorem version_rows_in_loose_version_order:
  fixes lv :: "string \<Rightarrow> 'v::linorder"
  shows
  "sorted (map (\<lambda>(l, vsuff, ver). (l, vsuff))
             (sorted_version_pairs lv (version_pairs entries)))
   \<and> distinct (sorted_version_pairs lv (version_pairs entries))
   \<and> set (sorted_version_pairs lv (version_pairs entries)) =
       (\<lambda>x. (lv (version x), versionsuffix x, version x)) ` set entries
   \<and> list_software_md_table lv entries =
       (if \<exists>x \<in> set entries. versionsuffix x \<noteq> ''''
        then ([''version'', ''versionsuffix'', ''toolchain''],
              [map version_cell (sorted_version_pairs lv (version_pairs entries)),
               map versionsuffix_cell (sorted_version_pairs lv (version_pairs entries)),
               map (toolchain_cell entries) (sorted_version_pairs lv (version_pairs entries))])
        else ([''version'', ''toolchain''],
              [map version_cell (sorted_version_pairs lv (version_pairs entries)),
               map (toolchain_cell entries) (sorted_version_pairs lv (version_pairs entries))]))
   \<and> list_software_rst_table lv entries = list_software_md_table lv entries
   \<and> list_software_txt_versions lv key entries =
       map (list_software_txt_line key entries)
           (sorted_version_pairs lv (version_pairs entries))"
proof (intro conjI)
  show "sorted (map (\<lambda>(l, vsuff, ver). (l, vsuff))
                  (sorted_version_pairs lv (version_pairs entries)))"
    by (rule sorted_by_version_then_suffix[OF sorted_version_pairs_sorted])
qed (simp_all add: sorted_version_pairs_distinct sorted_version_pairs_set
       list_software_md_table_eq[symmetric] list_software_rst_table_def
       list_software_txt_versions_def)

theorem version_rows_in_loose_version_order_witness:
  "sort [''2.0'', ''10.0''] = [''10.0'', ''2.0''] \<and>
   sorted (map (\<lambda>(l, vsuff, ver). (l, vsuff))
             (sorted_version_pairs LooseVersion (version_pairs example_versions))) \<and>
   list_software_md_table LooseVersion example_versions =
     ([''version'', ''toolchain''],
      [[''``2.0``'', ''``10.0``''], [''``foss/2023a``'', ''``foss/2023a``'']]) \<and>
   list_software_rst_table LooseVersion example_versions =
     ([''version'', ''toolchain''],
      [[''``2.0``'', ''``10.0``''], [''``foss/2023a``'', ''``foss/2023a``'']]) \<and>
   list_software_txt_versions LooseVersion ''Foo'' example_versions =
     [''  * Foo v2.0: foss/2023a'', ''  * Foo v10.0: foss/2023a'']"
proof -
  have lexicographic: "sort [''2.0'', ''10.0''] = [''10.0'', ''2.0'']"
    by code_simp
  have md: "list_software_md_table LooseVersion example_versions =
     ([''version'', ''toolchain''],
      [[''``2.0``'', ''``10.0``''], [''``foss/2023a``'', ''``foss/2023a``'']])"
    by code_simp
  have lines: "list_software_txt_versions LooseVersion ''Foo'' example_versions =
     [''  * Foo v2.0: foss/2023a'', ''  * Foo v10.0: foss/2023a'']"
    by code_simp
  note inst = version_rows_in_loose_version_order[of LooseVersion example_versions "''Foo''"]
  from inst have rst: "list_software_rst_table LooseVersion example_versions =
     ([''version'', ''toolchain''],
      [[''``2.0``'', ''``10.0``''], [''``foss/2023a``'', ''``foss/2023a``'']])"
    using md by simp
  from inst[THEN conjunct1] lexicographic md rst lines show ?thesis by blast
qed

text \<open>
  Claim C4. The last column of the version table holds, for each row, the toolchain
  labels of the entries with the version and versionsuffix of the row, as a sorted list
  without duplicates, joined by commas; the txt line of the row ends with the same list.
  The list depends only on the set of those labels.
\<close>

theorem toolchain_cells_deduplicated_sorted:
  fixes lv :: "string \<Rightarrow> 'v::linorder"
  shows
  "last (snd (list_software_md_table lv entries)) =
     map (toolchain_cell entries) (sorted_version_pairs lv (version_pairs entries))
   \<and> last (snd (list_software_rst_table lv entries)) =
     map (toolchain_cell entries) (sorted_version_pairs lv (version_pairs entries))
   \<and> toolchain_cell entries (l, vsuff, ver) =
       join '', '' (map backquoted (sorted_list_of_set
         {toolchain x | x. x \<in> set entries \<and> version x = ver \<and> versionsuffix x = vsuff}))
   \<and> list_software_txt_line key entries (l, vsuff, ver) =
       (if vsuff \<noteq> ''''
        then ''  * '' @ key @ '' v'' @ ver @ '' (versionsuffix: '' @ [CHR 0x27] @ vsuff @
             [CHR 0x27] @ '')''
        else ''  * '' @ key @ '' v'' @ ver) @ '': '' @
       join '', '' (sorted_list_of_set
         {toolchain x | x. x \<in> set entries \<and> version x = ver \<and> versionsuffix x = vsuff})"
  by (simp add: list_software_rst_table_def list_software_md_table_eq toolchain_cell_def
      list_software_txt_line_def sort_nub toolchains_of_set Let_def)

theorem toolchain_cells_deduplicated_sorted_witness:
  "map toolchain example_toolchains = [''gompat/2023a'', ''foss/2023a'', ''gompat/2023a''] \<and>
   last (snd (list_software_md_table LooseVersion example_toolchains)) =
     [''``foss/2023a``, ``gompat/2023a``''] \<and>
   list_software_md_table LooseVersion example_toolchains =
     ([''version'', ''toolchain''], [[''``1.0``''], [''``foss/2023a``, ``gompat/2023a``'']])"
proof -
  have labels:
    "map toolchain example_toolchains = [''gompat/2023a'', ''foss/2023a'', ''gompat/2023a'']"
    by (simp add: example_toolchains_def)
  have cells: "map (toolchain_cell example_toolchains)
                 (sorted_version_pairs LooseVersion (version_pairs example_toolchains)) =
               [''``foss/2023a``, ``gompat/2023a``'']"
    by code_simp
  have md: "list_software_md_table LooseVersion example_toolchains =
     ([''version'', ''toolchain''], [[''``1.0``''], [''``foss/2023a``, ``gompat/2023a``'']])"
    by code_simp
  from toolchain_cells_deduplicated_sorted[of LooseVersion example_toolchains, THEN conjunct1]
  have "last (snd (list_software_md_table LooseVersion example_toolchains)) =
     [''``foss/2023a``, ``gompat/2023a``'']"
    by (simp only: cells)
  with labels md show ?thesis by blast
qed

subsection \<open>The overview of the easyblocks\<close>

text \<open>
  Claim C8. When a module of the package has no class that is an easyblock of the
  package, \<^verbatim>\<open>get_easyblock_classes\<close> raises \<^verbatim>\<open>RuntimeError\<close> for such a module (the
  first one in the order of the scan), and the md and rst overviews, which call it
  first, raise the same exception and return no document.
\<close>

theorem module_without_easyblocks_is_fatal:
  assumes "m \<in> set (import_available_modules package_name)"
    and "\<forall>eb_class \<in> set (mod_classes m). \<not> is_easyblock_in package_name eb_class"
  shows "\<exists>m' \<in> set (import_available_modules package_name).
           (\<forall>eb_class \<in> set (mod_classes m'). \<not> is_easyblock_in package_name eb_class) \<and>
           get_easyblock_classes import_available_modules package_name =
             Inl (RuntimeError ''No easyblocks found in module: %s'' (mod_name m')) \<and>
           gen_easyblocks_overview_md import_available_modules sections package_name =
             Inl (RuntimeError ''No easyblocks found in module: %s'' (mod_name m')) \<and>
           gen_easyblocks_overview_rst import_available_modules sections package_name =
             Inl (RuntimeError ''No easyblocks found in module: %s'' (mod_name m'))"
proof -
  from assms have "\<exists>m \<in> set (import_available_modules package_name).
      \<forall>c \<in> set (mod_classes m). \<not> is_easyblock_in package_name c"
    by blast
  from scan_modules_raises[OF this, of "{}"]
  obtain m' where m': "m' \<in> set (import_available_modules package_name)"
      "\<forall>c \<in> set (mod_classes m'). \<not> is_easyblock_in package_name c"
      "scan_modules package_name (import_available_modules package_name) {} =
         Inl (RuntimeError ''No easyblocks found in module: %s'' (mod_name m'))"
    by blast
  then show ?thesis
    by (auto simp: get_easyblock_classes_def gen_easyblocks_overview_md_def
        gen_easyblocks_overview_rst_def intro!: bexI[of _ m'])
qed

theorem module_without_easyblocks_is_fatal_witness:
  "example_modules ''easybuild.easyblocks.generic'' ! 1
     \<in> set (example_modules ''easybuild.easyblocks.generic'') \<and>
   list_all (\<lambda>eb_class. \<not> is_easyblock_in ''easybuild.easyblocks.generic'' eb_class)
     (mod_classes (example_modules ''easybuild.easyblocks.generic'' ! 1)) \<and>
   get_easyblock_classes example_modules ''easybuild.easyblocks.generic'' =
     Inl (RuntimeError ''No easyblocks found in module: %s''
            ''easybuild.easyblocks.generic.helpers'') \<and>
   (\<exists>m' \<in> set (example_modules ''easybuild.easyblocks.generic'').
      gen_easyblocks_overview_md example_modules (\<lambda>eb_classes. []) ''easybuild.easyblocks.generic'' =
        Inl (RuntimeError ''No easyblocks found in module: %s'' (mod_name m')))"
proof -
  have member: "example_modules ''easybuild.easyblocks.generic'' ! 1
     \<in> set (example_modules ''easybuild.easyblocks.generic'')"
    by (simp add: example_modules_def)
  have none: "list_all (\<lambda>eb_class. \<not> is_easyblock_in ''easybuild.easyblocks.generic'' eb_class)
     (mod_classes (example_modules ''easybuild.easyblocks.generic'' ! 1))"
    by code_simp
  then have none': "\<forall>eb_class \<in> set (mod_classes (example_modules ''easybuild.easyblocks.generic'' ! 1)).
      \<not> is_easyblock_in ''easybuild.easyblocks.generic'' eb_class"
    by (simp only: list_all_iff)
  have raised: "get_easyblock_classes example_modules ''easybuild.easyblocks.generic'' =
     Inl (RuntimeError ''No easyblocks found in module: %s''
            ''easybuild.easyblocks.generic.helpers'')"
    by code_simp
  from module_without_easyblocks_is_fatal
         [where m = "example_modules ''easybuild.easyblocks.generic'' ! 1"
            and import_available_modules = example_modules
            and package_name = "''easybuild.easyblocks.generic''"
            and sections = "\<lambda>eb_classes. []", OF member none']
  have "\<exists>m' \<in> set (example_modules ''easybuild.easyblocks.generic'').
      gen_easyblocks_overview_md example_modules (\<lambda>eb_classes. []) ''easybuild.easyblocks.generic'' =
        Inl (RuntimeError ''No easyblocks found in module: %s'' (mod_name m'))"
    by blast
  with member none raised show ?thesis by blast
qed

text \<open>
  Claim C3. The class of the example defines \<^verbatim>\<open>configure_step\<close> with a docstring and
  does not define \<^verbatim>\<open>build_step\<close>. The loop keeps the function of the step before in
  \<open>f\<close>, so the section gets a bullet for \<^verbatim>\<open>build_step\<close> too, with the docstring of
  \<^verbatim>\<open>configure_step\<close>, in both formats.
\<close>

theorem custom_steps_reuse_previous_hook:
  "map_of (class_dict example_hook_class) ''build_step'' = None \<and>
   customised_steps_md None example_hook_class [''configure_step'', ''build_step''] =
     [''### Customised steps in ``Example`` easyblock'', '''',
      ''* ``configure_step`` - Configure the build.'', '''',
      ''* ``build_step`` - Configure the build.'', '''',
      ''''] \<and>
   customised_steps_rst None example_hook_class [''configure_step'', ''build_step''] =
     [''Customised steps in ``Example`` easyblock'',
      ''-----------------------------------------'',
      ''* ``configure_step`` - Configure the build.'',
      ''* ``build_step`` - Configure the build.'',
      ''''] \<and>
   customised_steps_md None example_hook_class [''build_step'', ''configure_step''] =
     [''### Customised steps in ``Example`` easyblock'', '''',
      ''* ``configure_step`` - Configure the build.'', '''',
      '''']"
  by code_simp

end
